theory Spec2Isabelle
  imports Main
begin

section \<open>Static page generation (core/build/generate.ts)\<close>

text \<open>
  A shallow embedding of \<^verbatim>\<open>packages/astro/src/core/build/generate.ts\<close>.
  JavaScript strings are \<open>string\<close>s, a \<^verbatim>\<open>Map<string, T>\<close> is an association list
  in insertion order read with \<open>map_of\<close>, a thrown \<^verbatim>\<open>Error\<close> is a value of type
  \<open>error\<close>, and a function that may throw returns \<open>error + 'a\<close>.
\<close>

subsection \<open>Errors and JavaScript maps\<close>

datatype error = Error string

type_synonym 'v jsmap = "(string \<times> 'v) list"

definition Map_get :: "'v jsmap \<Rightarrow> string \<Rightarrow> 'v option" where
  "Map_get m k = map_of m k"

definition Map_has :: "'v jsmap \<Rightarrow> string \<Rightarrow> bool" where
  "Map_has m k = (case map_of m k of None \<Rightarrow> False | Some _ \<Rightarrow> True)"

definition Map_keys :: "'v jsmap \<Rightarrow> string list" where
  "Map_keys m = map fst m"

fun joinWith :: "string \<Rightarrow> string list \<Rightarrow> string" where
  "joinWith sep [] = []"
| "joinWith sep [x] = x"
| "joinWith sep (x # y # ys) = x @ sep @ joinWith sep (y # ys)"

subsection \<open>getByFacadeId (lines 37-43)\<close>

text \<open>
  \<^verbatim>\<open>facadeId.replace(/\//g, '\\')\<close>: every forward slash becomes a backslash
  (character code 0x5C).
\<close>

definition toBackslashes :: "string \<Rightarrow> string" where
  "toBackslashes s = map (\<lambda>c. if c = CHR ''/'' then CHR 0x5C else c) s"

text \<open>
  \<^verbatim>\<open>map.get(facadeId) || map.get(facadeId.replace(/\//g, '\\'))\<close>. The operator
  \<^verbatim>\<open>||\<close> takes its right operand when the left one is falsy, that is when the key is
  absent (\<^verbatim>\<open>undefined\<close>) or its value is a falsy value of \<open>T\<close>; \<open>truthy\<close> says
  which values of \<open>T\<close> are truthy (every object and array, every non-empty string).
\<close>

definition getByFacadeId :: "('v \<Rightarrow> bool) \<Rightarrow> string \<Rightarrow> 'v jsmap \<Rightarrow> 'v option" where
  "getByFacadeId truthy facadeId m =
     (case Map_get m facadeId of
        Some v \<Rightarrow> if truthy v then Some v else Map_get m (toBackslashes facadeId)
      | None \<Rightarrow> Map_get m (toBackslashes facadeId))"

definition truthyObject :: "'v \<Rightarrow> bool" where
  "truthyObject v = True"

definition truthyString :: "string \<Rightarrow> bool" where
  "truthyString s = (s \<noteq> [])"

subsection \<open>throttle (lines 46-66)\<close>

text \<open>
  The generator pushes every path onto \<open>tmp\<close> and compares the counter \<open>i\<close> with
  \<open>max\<close> (here \<open>maxv\<close>) after the push. A batch is the content of \<open>tmp\<close> at the moment of the
  \<^verbatim>\<open>yield\<close>: the consumer reads it before it resumes the generator, which then empties
  the array. The result lists the batches in yield order.
\<close>

fun throttle_loop :: "int \<Rightarrow> string list \<Rightarrow> string list \<Rightarrow> int \<Rightarrow> string list list" where
  "throttle_loop maxv [] tmp i = (if tmp \<noteq> [] then [tmp] else [])"
| "throttle_loop maxv (path # inPaths) tmp i =
     (let tmp' = tmp @ [path] in
      if i = maxv then tmp' # throttle_loop maxv inPaths [] 0
      else throttle_loop maxv inPaths tmp' (i + 1))"

definition throttle :: "int \<Rightarrow> string list \<Rightarrow> string list list" where
  "throttle maxv inPaths = throttle_loop maxv inPaths [] 0"

definition MAX_CONCURRENT_RENDERS :: int where
  "MAX_CONCURRENT_RENDERS = 1"

subsection \<open>Build artifacts and chunkIsPage (lines 68-85)\<close>

datatype outputType = Chunk | Asset

text \<open>\<^verbatim>\<open>OutputAsset | OutputChunk\<close> of rollup: the fields the file reads.\<close>

record buildOutput =
  outputType :: outputType
  fileName :: string
  facadeModuleId :: "string option"

text \<open>
  The part of \<^verbatim>\<open>AstroConfig\<close> the file reads. \<open>projectRoot\<close> is the string
  \<^verbatim>\<open>fileURLToPath(astroConfig.projectRoot)\<close>; \<open>scripts\<close> and \<open>renderers\<close> are
  \<^verbatim>\<open>astroConfig._ctx.scripts\<close> and \<^verbatim>\<open>astroConfig._ctx.renderers\<close>.
\<close>

datatype scriptStage = BeforeHydration | HeadInline | PageStage | PageSsr

record injectedScript =
  stage :: scriptStage
  content :: string

record astroConfig =
  projectRoot :: string
  site :: "string option"
  experimentalSsr :: bool
  scripts :: "injectedScript list"
  renderers :: "string list"

text \<open>
  \<^verbatim>\<open>BuildInternals\<close>. The arrays held by \<^verbatim>\<open>facadeIdToAssetsMap\<close> are objects on the
  heap; the map holds their addresses.
\<close>

type_synonym addr = nat

record internals =
  entrySpecifierToBundleMap :: "string jsmap"
  facadeIdToAssetsMap :: "addr jsmap"
  facadeIdToHoistedEntryMap :: "string jsmap"

text \<open>\<^verbatim>\<open>facadeId.slice(fileURLToPath(astroConfig.projectRoot).length)\<close>\<close>

definition rootRelativeFacadeId :: "string \<Rightarrow> astroConfig \<Rightarrow> string" where
  "rootRelativeFacadeId facadeId cfg = drop (length (projectRoot cfg)) facadeId"

text \<open>
  Modelled from the spec: \<^verbatim>\<open>prependForwardSlash\<close> of \<^verbatim>\<open>core/path.js\<close>, which is not
  among the source files. The spec calls its result the "forward-slash-prefixed form":
  a path that already starts with a forward slash is kept, any other gets one in front.
\<close>

definition prependForwardSlash :: "string \<Rightarrow> string" where
  "prependForwardSlash path =
     (case path of
        [] \<Rightarrow> ''/''
      | c # _ \<Rightarrow> if c = CHR ''/'' then path else ''/'' @ path)"

definition chunkIsPage :: "astroConfig \<Rightarrow> buildOutput \<Rightarrow> internals \<Rightarrow> bool" where
  "chunkIsPage cfg out ints =
     (if outputType out \<noteq> Chunk then False
      else case facadeModuleId out of
        None \<Rightarrow> False
      | Some fid \<Rightarrow>
          if truthyString fid
          then Map_has (entrySpecifierToBundleMap ints)
                 (prependForwardSlash (rootRelativeFacadeId fid cfg))
          else False)"

subsection \<open>The render-time resolve function (lines 209-225)\<close>

text \<open>
  \<^verbatim>\<open>npath.posix.relative\<close> is Node's library function. Following its documentation,
  both paths are resolved to absolute, normalised paths (a relative one against the
  working directory; empty and \<^verbatim>\<open>.\<close> segments dropped; \<^verbatim>\<open>..\<close> removing the segment
  before it, and nothing at the root), the common leading segments are dropped, and
  the result climbs one \<^verbatim>\<open>..\<close> for every segment left of \<open>from\<close> and then descends
  the segments left of \<open>to\<close>.
\<close>

fun splitOn :: "char \<Rightarrow> string \<Rightarrow> string list" where
  "splitOn c [] = [[]]"
| "splitOn c (x # xs) =
     (if x = c then [] # splitOn c xs
      else case splitOn c xs of
        s # ss \<Rightarrow> (x # s) # ss
      | [] \<Rightarrow> [[x]])"

fun normalizeSegments :: "string list \<Rightarrow> string list \<Rightarrow> string list" where
  "normalizeSegments acc [] = acc"
| "normalizeSegments acc (s # ss) =
     (if s = [] \<or> s = ''.'' then normalizeSegments acc ss
      else if s = ''..'' then normalizeSegments (butlast acc) ss
      else normalizeSegments (acc @ [s]) ss)"

definition posix_resolve :: "string \<Rightarrow> string \<Rightarrow> string list" where
  "posix_resolve cwd p =
     normalizeSegments []
       (splitOn (CHR ''/'')
          (case p of
             [] \<Rightarrow> cwd
           | c # _ \<Rightarrow> if c = CHR ''/'' then p else cwd @ ''/'' @ p))"

fun dropCommon :: "string list \<Rightarrow> string list \<Rightarrow> string list \<times> string list" where
  "dropCommon (x # xs) (y # ys) = (if x = y then dropCommon xs ys else (x # xs, y # ys))"
| "dropCommon xs ys = (xs, ys)"

definition posix_relative :: "string \<Rightarrow> string \<Rightarrow> string \<Rightarrow> string" where
  "posix_relative cwd from to =
     (if from = to then []
      else
        let f = posix_resolve cwd from; t = posix_resolve cwd to in
        if f = t then []
        else case dropCommon f t of
          (f', t') \<Rightarrow> joinWith ''/'' (replicate (length f') ''..'' @ t'))"

definition resolve :: "string \<Rightarrow> internals \<Rightarrow> string \<Rightarrow> string \<Rightarrow> error + string" where
  "resolve cwd ints pathname specifier =
     (case Map_get (entrySpecifierToBundleMap ints) specifier of
        None \<Rightarrow>
          if specifier = ''astro:scripts/before-hydration.js''
          then Inr ''data:text/javascript;charset=utf-8,//[no before-hydration script]''
          else Inl (Error (''Cannot find the built path for '' @ specifier))
      | Some hashedFilePath \<Rightarrow>
          let relPath = posix_relative cwd pathname (''/'' @ hashedFilePath);
              fullyRelativePath =
                (case relPath of
                   [] \<Rightarrow> ''./'' @ relPath
                 | c # _ \<Rightarrow> if c = CHR ''.'' then relPath else ''./'' @ relPath)
          in Inr fullyRelativePath)"

subsection \<open>Pages, render options and the collaborators\<close>

datatype routeType = PageRoute | EndpointRoute

record routeData =
  routeType :: routeType
  component :: string

text \<open>\<^verbatim>\<open>PageBuildData\<close>: the route and the paths to render for the page.\<close>

record pageBuildData =
  route :: routeData
  paths :: "string list"

text \<open>
  \<^verbatim>\<open>SSRElement\<close>. A \<^verbatim>\<open>Set<SSRElement>\<close> is the list of its elements in insertion
  order: every element is a fresh object, so \<^verbatim>\<open>add\<close> appends.
\<close>

record element =
  props :: "(string \<times> string) list"
  children :: string

text \<open>
  \<^verbatim>\<open>RenderOptions\<close> as built at lines 199-232, without the handles that are only
  passed through (logging, markdownRender, headers, routeCache).
\<close>

record renderOptions =
  ro_legacyBuild :: bool
  ro_links :: "element list"
  ro_mod :: string
  ro_origin :: string
  ro_pathname :: string
  ro_scripts :: "element list"
  ro_renderers :: "string list"
  ro_resolve :: "string \<Rightarrow> error + string"
  ro_method :: string
  ro_route :: routeData
  ro_site :: "string option"
  ro_ssr :: bool

text \<open>The results of \<^verbatim>\<open>render\<close> and of the endpoint \<^verbatim>\<open>call\<close>, by their \<^verbatim>\<open>type\<close> tag.\<close>

datatype renderResult = HtmlResult string | ResponseResult

datatype endpointResult = SimpleResult string | EndpointResponse

text \<open>\<^verbatim>\<open>StaticBuildOptions\<close>; its \<^verbatim>\<open>pageNames\<close> array is mutated and lives in the world.\<close>

record buildOpts =
  astroConfig :: astroConfig
  origin :: string

text \<open>
  \<^verbatim>\<open>GeneratePathOptions\<close> (lines 160-167). \<open>linkIds\<close> is a reference to an array on
  the heap: one record, and so one array, is shared by all paths of a page.
\<close>

record generatePathOptions =
  pageData :: pageBuildData
  internals :: internals
  linkIds :: addr
  hoistedId :: "string option"
  compiledModule :: string
  loadedRenderers :: "string list"

datatype logEntry =
    InfoBanner
  | InfoPage routeType string
  | InfoPath string
  | DebugGenerating string
  | ErrorRendering error

text \<open>
  The mutable state the file touches: the heap of \<^verbatim>\<open>string[]\<close> arrays,
  \<^verbatim>\<open>opts.pageNames\<close>, the output tree (directories created, file contents by name)
  and the lines sent to the logger. Elapsed times are left out of the log lines.
  \<open>tick\<close> counts the continuations that the event loop has run for the batches.
\<close>

record world =
  heap :: "addr \<Rightarrow> string list"
  nextAddr :: addr
  pageNames :: "string list"
  dirs :: "string list"
  files :: "string \<Rightarrow> string option"
  logged :: "logEntry list"
  tick :: nat

text \<open>
  The functions the file imports from other modules, and the runtime's own: each is a
  parameter that may throw. The file system calls fail as \<open>mkdirError\<close> and
  \<open>writeFileError\<close> say and update the output tree otherwise. The order in which
  pending promises settle is not fixed by the file: \<open>schedule\<close> chooses, at every
  tick of the event loop, which of the pending tasks runs its continuation (and which
  of several failing imports fails first), and \<open>rejectionDelay\<close> says how many
  continuations of a batch still run before a rejection of \<^verbatim>\<open>Promise.all\<close> reaches
  \<^verbatim>\<open>generatePage\<close>. The theorems hold for every choice of both.
\<close>

record env =
  cwd :: string
  loadRenderer :: "string \<Rightarrow> astroConfig \<Rightarrow> error + string"
  getOutRoot :: "astroConfig \<Rightarrow> string"
  newURL :: "string \<Rightarrow> string \<Rightarrow> string"
  importModule :: "string \<Rightarrow> error + string"
  createLinkStylesheetElementSet :: "string list \<Rightarrow> string option \<Rightarrow> error + element list"
  createModuleScriptElementWithSrcSet :: "string list \<Rightarrow> string option \<Rightarrow> error + element list"
  render :: "renderOptions \<Rightarrow> error + renderResult"
  callEndpoint :: "string \<Rightarrow> renderOptions \<Rightarrow> error + endpointResult"
  getOutFolder :: "astroConfig \<Rightarrow> string \<Rightarrow> routeType \<Rightarrow> error + string"
  getOutFile :: "astroConfig \<Rightarrow> string \<Rightarrow> string \<Rightarrow> routeType \<Rightarrow> error + string"
  mkdirError :: "string \<Rightarrow> error option"
  writeFileError :: "string \<Rightarrow> string \<Rightarrow> error option"
  schedule :: "nat \<Rightarrow> nat"
  rejectionDelay :: "nat \<Rightarrow> nat"

definition logAdd :: "logEntry \<Rightarrow> world \<Rightarrow> world" where
  "logAdd l w = w\<lparr>logged := logged w @ [l]\<rparr>"

subsection \<open>addPageName (lines 169-171)\<close>

text \<open>
  \<^verbatim>\<open>pathname.replace(/\/?$/, '/')\<close> leaves a path that ends with a slash as it is and
  appends a slash to any other; \<^verbatim>\<open>.replace(/^\//, '')\<close> removes one leading slash.
\<close>

definition ensureTrailingSlash :: "string \<Rightarrow> string" where
  "ensureTrailingSlash s = (if s \<noteq> [] \<and> last s = CHR ''/'' then s else s @ ''/'')"

definition removeLeadingSlash :: "string \<Rightarrow> string" where
  "removeLeadingSlash s =
     (case s of
        [] \<Rightarrow> []
      | c # r \<Rightarrow> if c = CHR ''/'' then r else s)"

definition addPageName :: "string \<Rightarrow> world \<Rightarrow> world" where
  "addPageName pathname w =
     w\<lparr>pageNames := pageNames w @ [removeLeadingSlash (ensureTrailingSlash pathname)]\<rparr>"

subsection \<open>generatePath (lines 173-259)\<close>

text \<open>The loop of lines 189-196 over the injected scripts.\<close>

fun addInjectedScripts :: "injectedScript list \<Rightarrow> element list \<Rightarrow> element list" where
  "addInjectedScripts [] scs = scs"
| "addInjectedScripts (script # rest) scs =
     (if stage script = HeadInline
      then addInjectedScripts rest (scs @ [\<lparr>props = [], children = content script\<rparr>])
      else addInjectedScripts rest scs)"

text \<open>
  Lines 252-255: the output folder and file, \<^verbatim>\<open>mkdir\<close> and \<^verbatim>\<open>writeFile\<close>. The result
  is the error thrown, if any, and the world as it is at that moment.
\<close>

definition writeOutput ::
  "env \<Rightarrow> astroConfig \<Rightarrow> string \<Rightarrow> routeType \<Rightarrow> string \<Rightarrow> world \<Rightarrow> error option \<times> world" where
  "writeOutput ev cfg pathname rt body w =
     (case getOutFolder ev cfg pathname rt of
        Inl err \<Rightarrow> (Some err, w)
      | Inr outFolder \<Rightarrow>
          (case getOutFile ev cfg outFolder pathname rt of
             Inl err \<Rightarrow> (Some err, w)
           | Inr outFile \<Rightarrow>
               (case mkdirError ev outFolder of
                  Some err \<Rightarrow> (Some err, w)
                | None \<Rightarrow>
                    let w1 = w\<lparr>dirs := dirs w @ [outFolder]\<rparr> in
                    (case writeFileError ev outFile body of
                       Some err \<Rightarrow> (Some err, w1)
                     | None \<Rightarrow> (None, w1\<lparr>files := (files w1)(outFile \<mapsto> body)\<rparr>)))))"

text \<open>
  The body of the \<^verbatim>\<open>try\<close> block after the options are built (lines 234-255): the
  error thrown inside it, if any, and the world at that moment.
\<close>

definition generatePath_try ::
  "env \<Rightarrow> string \<Rightarrow> buildOpts \<Rightarrow> generatePathOptions \<Rightarrow> renderOptions \<Rightarrow> world
     \<Rightarrow> error option \<times> world" where
  "generatePath_try ev pathname opts gopts options w =
     (let rt = routeType (route (pageData gopts)) in
      if rt = EndpointRoute then
        (case callEndpoint ev (compiledModule gopts) options of
           Inl err \<Rightarrow> (Some err, w)
         | Inr EndpointResponse \<Rightarrow>
             (Some (Error ''Returning a Response from an endpoint is not supported in SSG mode.''), w)
         | Inr (SimpleResult body) \<Rightarrow> writeOutput ev (astroConfig opts) pathname rt body w)
      else
        (case render ev options of
           Inl err \<Rightarrow> (Some err, w)
         | Inr ResponseResult \<Rightarrow> (None, w)
         | Inr (HtmlResult body) \<Rightarrow> writeOutput ev (astroConfig opts) pathname rt body w))"

text \<open>
  Lines 177-182: the page name is recorded for a route of type \<^verbatim>\<open>page\<close>, and the
  path is sent to the debug log.
\<close>

definition beforeLinks :: "string \<Rightarrow> generatePathOptions \<Rightarrow> world \<Rightarrow> world" where
  "beforeLinks pathname gopts w0 =
     logAdd (DebugGenerating pathname)
       (if routeType (route (pageData gopts)) = PageRoute
        then addPageName pathname w0 else w0)"

text \<open>
  \<^verbatim>\<open>linkIds.reverse()\<close> (line 185) reverses the array in place and returns the same
  array, which is then the argument of \<^verbatim>\<open>createLinkStylesheetElementSet\<close>:
  \<open>generatePath_links\<close> is the value of \<^verbatim>\<open>links\<close> for a call that reaches line 185 in
  world \<open>w\<close>.
\<close>

definition reverseLinkIds :: "generatePathOptions \<Rightarrow> world \<Rightarrow> world" where
  "reverseLinkIds gopts w =
     w\<lparr>heap := (heap w)(linkIds gopts := rev (heap w (linkIds gopts)))\<rparr>"

definition generatePath_links ::
  "env \<Rightarrow> buildOpts \<Rightarrow> generatePathOptions \<Rightarrow> world \<Rightarrow> error + element list" where
  "generatePath_links ev opts gopts w =
     createLinkStylesheetElementSet ev
       (heap (reverseLinkIds gopts w) (linkIds gopts)) (site (astroConfig opts))"

text \<open>\<^verbatim>\<open>hoistedId ? [hoistedId] : []\<close> (line 186).\<close>

definition hoistedScripts :: "generatePathOptions \<Rightarrow> string list" where
  "hoistedScripts gopts =
     (case hoistedId gopts of
        None \<Rightarrow> []
      | Some h \<Rightarrow> if truthyString h then [h] else [])"

text \<open>The options record of lines 199-232.\<close>

definition renderOptionsFor ::
  "env \<Rightarrow> string \<Rightarrow> buildOpts \<Rightarrow> generatePathOptions \<Rightarrow> element list \<Rightarrow> element list
     \<Rightarrow> renderOptions" where
  "renderOptionsFor ev pathname opts gopts links scs =
     \<lparr>ro_legacyBuild = False,
      ro_links = links,
      ro_mod = compiledModule gopts,
      ro_origin = origin opts,
      ro_pathname = pathname,
      ro_scripts = scs,
      ro_renderers = loadedRenderers gopts,
      ro_resolve = resolve (cwd ev) (internals gopts) pathname,
      ro_method = ''GET'',
      ro_route = route (pageData gopts),
      ro_site = site (astroConfig opts),
      ro_ssr = experimentalSsr (astroConfig opts)\<rparr>"

text \<open>
  The whole function. The result is the error with which the returned promise
  rejects (\<open>None\<close> when it resolves) and the world after the call. Lines 174-196 run
  before the \<^verbatim>\<open>try\<close> block; the \<^verbatim>\<open>catch\<close> of lines 256-258 logs the error and
  returns.
\<close>

definition generatePath ::
  "env \<Rightarrow> string \<Rightarrow> buildOpts \<Rightarrow> generatePathOptions \<Rightarrow> world \<Rightarrow> error option \<times> world" where
  "generatePath ev pathname opts gopts w0 =
     (let cfg = astroConfig opts;
          w2 = beforeLinks pathname gopts w0;
          w3 = reverseLinkIds gopts w2
      in
      case generatePath_links ev opts gopts w2 of
        Inl err \<Rightarrow> (Some err, w3)
      | Inr links \<Rightarrow>
          (case createModuleScriptElementWithSrcSet ev (hoistedScripts gopts) (site cfg) of
             Inl err \<Rightarrow> (Some err, w3)
           | Inr scripts0 \<Rightarrow>
               (case generatePath_try ev pathname opts gopts
                       (renderOptionsFor ev pathname opts gopts links
                          (addInjectedScripts (scripts cfg) scripts0)) w3 of
                  (Some err, w4) \<Rightarrow> (None, logAdd (ErrorRendering err) w4)
                | (None, w4) \<Rightarrow> (None, w4))))"

subsection \<open>generatePath as a task of the event loop\<close>

text \<open>
  \<open>generatePath\<close> above is one call awaited on its own. In a batch the calls overlap:
  a call runs at once to its first \<^verbatim>\<open>await\<close> (line 236 or 243) and is then a task that
  waits, first for the promise of the endpoint call or of \<^verbatim>\<open>render\<close>, then for
  \<^verbatim>\<open>mkdir\<close> (line 254), then for \<^verbatim>\<open>writeFile\<close> (line 255). A call that throws before
  the \<^verbatim>\<open>try\<close> block has a rejected promise; every other call ends resolved, since the
  \<^verbatim>\<open>catch\<close> of lines 256-258 covers all its continuations.
\<close>

datatype task =
    Rejected error
  | AwaitEndpoint string "error + endpointResult"
  | AwaitRender string "error + renderResult"
  | AwaitMkdir string string string
  | AwaitWriteFile string string
  | Resolved

text \<open>Lines 174-243, up to the first \<^verbatim>\<open>await\<close>.\<close>

definition generatePath_start ::
  "env \<Rightarrow> string \<Rightarrow> buildOpts \<Rightarrow> generatePathOptions \<Rightarrow> world \<Rightarrow> task \<times> world" where
  "generatePath_start ev pathname opts gopts w0 =
     (let cfg = astroConfig opts;
          w2 = beforeLinks pathname gopts w0;
          w3 = reverseLinkIds gopts w2
      in
      case generatePath_links ev opts gopts w2 of
        Inl err \<Rightarrow> (Rejected err, w3)
      | Inr links \<Rightarrow>
          (case createModuleScriptElementWithSrcSet ev (hoistedScripts gopts) (site cfg) of
             Inl err \<Rightarrow> (Rejected err, w3)
           | Inr scripts0 \<Rightarrow>
               let options = renderOptionsFor ev pathname opts gopts links
                               (addInjectedScripts (scripts cfg) scripts0)
               in
               if routeType (route (pageData gopts)) = EndpointRoute
               then (AwaitEndpoint pathname (callEndpoint ev (compiledModule gopts) options), w3)
               else (AwaitRender pathname (render ev options), w3)))"

text \<open>The \<^verbatim>\<open>catch\<close> block: the error is logged and the promise resolves.\<close>

definition caught :: "error \<Rightarrow> world \<Rightarrow> task \<times> world" where
  "caught err w = (Resolved, logAdd (ErrorRendering err) w)"

text \<open>Lines 252-254: the output folder and file are named and \<^verbatim>\<open>mkdir\<close> is called.\<close>

definition startWrite ::
  "env \<Rightarrow> astroConfig \<Rightarrow> string \<Rightarrow> routeType \<Rightarrow> string \<Rightarrow> world \<Rightarrow> task \<times> world" where
  "startWrite ev cfg pathname rt body w =
     (case getOutFolder ev cfg pathname rt of
        Inl err \<Rightarrow> caught err w
      | Inr outFolder \<Rightarrow>
          (case getOutFile ev cfg outFolder pathname rt of
             Inl err \<Rightarrow> caught err w
           | Inr outFile \<Rightarrow> (AwaitMkdir outFolder outFile body, w)))"

text \<open>The continuation of a task, run when the promise it waits for has settled.\<close>

fun task_step ::
  "env \<Rightarrow> buildOpts \<Rightarrow> generatePathOptions \<Rightarrow> task \<Rightarrow> world \<Rightarrow> task \<times> world" where
  "task_step ev opts gopts (AwaitEndpoint pathname r) w =
     (case r of
        Inl err \<Rightarrow> caught err w
      | Inr EndpointResponse \<Rightarrow>
          caught (Error ''Returning a Response from an endpoint is not supported in SSG mode.'') w
      | Inr (SimpleResult body) \<Rightarrow>
          startWrite ev (astroConfig opts) pathname (routeType (route (pageData gopts))) body w)"
| "task_step ev opts gopts (AwaitRender pathname r) w =
     (case r of
        Inl err \<Rightarrow> caught err w
      | Inr ResponseResult \<Rightarrow> (Resolved, w)
      | Inr (HtmlResult body) \<Rightarrow>
          startWrite ev (astroConfig opts) pathname (routeType (route (pageData gopts))) body w)"
| "task_step ev opts gopts (AwaitMkdir outFolder outFile body) w =
     (case mkdirError ev outFolder of
        Some err \<Rightarrow> caught err w
      | None \<Rightarrow> (AwaitWriteFile outFile body, w\<lparr>dirs := dirs w @ [outFolder]\<rparr>))"
| "task_step ev opts gopts (AwaitWriteFile outFile body) w =
     (case writeFileError ev outFile body of
        Some err \<Rightarrow> caught err w
      | None \<Rightarrow> (Resolved, w\<lparr>files := (files w)(outFile \<mapsto> body)\<rparr>))"
| "task_step ev opts gopts (Rejected err) w = (Rejected err, w)"
| "task_step ev opts gopts Resolved w = (Resolved, w)"

text \<open>The continuations a task has left at most; a settled promise has none.\<close>

fun remaining :: "task \<Rightarrow> nat" where
  "remaining (Rejected err) = 0"
| "remaining (AwaitEndpoint pathname r) = 3"
| "remaining (AwaitRender pathname r) = 3"
| "remaining (AwaitMkdir outFolder outFile body) = 2"
| "remaining (AwaitWriteFile outFile body) = 1"
| "remaining Resolved = 0"

definition pending :: "task \<Rightarrow> bool" where
  "pending t = (0 < remaining t)"

fun isRejected :: "task \<Rightarrow> bool" where
  "isRejected (Rejected err) = True"
| "isRejected t = False"

text \<open>The continuation of the \<open>k\<close>-th pending task of the list is run.\<close>

fun stepNth ::
  "env \<Rightarrow> buildOpts \<Rightarrow> generatePathOptions \<Rightarrow> nat \<Rightarrow> task list \<Rightarrow> world
     \<Rightarrow> task list \<times> world" where
  "stepNth ev opts gopts k [] w = ([], w)"
| "stepNth ev opts gopts k (t # ts) w =
     (if \<not> pending t then
        (case stepNth ev opts gopts k ts w of (ts', w') \<Rightarrow> (t # ts', w'))
      else if k = 0 then
        (case task_step ev opts gopts t w of (t', w') \<Rightarrow> (t' # ts, w'))
      else
        (case stepNth ev opts gopts (k - 1) ts w of (ts', w') \<Rightarrow> (t # ts', w')))"

text \<open>
  The event loop runs at most \<open>n\<close> continuations of the tasks, each chosen by the
  schedule among the pending tasks, and stops before that when no task is pending.
\<close>

fun runSome ::
  "env \<Rightarrow> buildOpts \<Rightarrow> generatePathOptions \<Rightarrow> nat \<Rightarrow> task list \<Rightarrow> world
     \<Rightarrow> task list \<times> world" where
  "runSome ev opts gopts 0 tasks w = (tasks, w)"
| "runSome ev opts gopts (Suc n) tasks w =
     (let np = length (filter pending tasks) in
      if np = 0 then (tasks, w)
      else
        (case stepNth ev opts gopts (schedule ev (tick w) mod np) tasks w of
           (tasks', w') \<Rightarrow> runSome ev opts gopts n tasks' (w'\<lparr>tick := Suc (tick w')\<rparr>)))"

text \<open>
  All tasks are run to their end: every continuation uses up one of the steps a task
  has left, so their sum is enough.
\<close>

definition runTasks ::
  "env \<Rightarrow> buildOpts \<Rightarrow> generatePathOptions \<Rightarrow> task list \<Rightarrow> world \<Rightarrow> task list \<times> world" where
  "runTasks ev opts gopts tasks w =
     runSome ev opts gopts (sum_list (map remaining tasks)) tasks w"

subsection \<open>generatePage (lines 100-158)\<close>

text \<open>
  Lines 138-140: \<^verbatim>\<open>generatePath\<close> is called for every path of the batch in order; each
  call runs to its first \<^verbatim>\<open>await\<close> before the next is made.
\<close>

fun startAll ::
  "env \<Rightarrow> buildOpts \<Rightarrow> generatePathOptions \<Rightarrow> string list \<Rightarrow> world \<Rightarrow> task list \<times> world" where
  "startAll ev opts gopts [] w = ([], w)"
| "startAll ev opts gopts (path # rest) w =
     (case generatePath_start ev path opts gopts w of
        (t, w1) \<Rightarrow>
          (case startAll ev opts gopts rest w1 of
             (ts, w2) \<Rightarrow> (t # ts, w2)))"

text \<open>
  A call that rejects does so before its first \<^verbatim>\<open>await\<close>, so its promise is already
  rejected when \<^verbatim>\<open>Promise.all\<close> is called: the first rejection \<^verbatim>\<open>Promise.all\<close> sees is
  the first of the list.
\<close>

fun firstRejected :: "task list \<Rightarrow> error option" where
  "firstRejected [] = None"
| "firstRejected (Rejected err # ts) = Some err"
| "firstRejected (t # ts) = firstRejected ts"

text \<open>
  One batch (lines 138-142). With a rejected promise \<^verbatim>\<open>Promise.all\<close> rejects, and
  \<^verbatim>\<open>generatePage\<close> throws after the continuations that the event loop runs in between;
  the tasks still pending then are no longer awaited by anyone. Without one,
  \<^verbatim>\<open>generatePage\<close> goes on when all the tasks have resolved.
\<close>

definition renderBatch ::
  "env \<Rightarrow> buildOpts \<Rightarrow> generatePathOptions \<Rightarrow> string list \<Rightarrow> world
     \<Rightarrow> error option \<times> world" where
  "renderBatch ev opts gopts batch w =
     (case startAll ev opts gopts batch w of
        (tasks, w1) \<Rightarrow>
          (case firstRejected tasks of
             Some err \<Rightarrow>
               (Some err, snd (runSome ev opts gopts (rejectionDelay ev (tick w1)) tasks w1))
           | None \<Rightarrow> (None, snd (runTasks ev opts gopts tasks w1))))"

text \<open>Lines 146-152: one line of progress for every path of the batch, in order.\<close>

fun logPaths :: "string list \<Rightarrow> world \<Rightarrow> world" where
  "logPaths [] w = w"
| "logPaths (path # rest) w = logPaths rest (logAdd (InfoPath path) w)"

text \<open>The loop of lines 137-157 over the batches that \<open>throttle\<close> yields.\<close>

fun generateBatches ::
  "env \<Rightarrow> buildOpts \<Rightarrow> generatePathOptions \<Rightarrow> string list list \<Rightarrow> world
     \<Rightarrow> error option \<times> world" where
  "generateBatches ev opts gopts [] w = (None, w)"
| "generateBatches ev opts gopts (batch # rest) w =
     (case renderBatch ev opts gopts batch w of
        (Some err, w1) \<Rightarrow> (Some err, w1)
      | (None, w1) \<Rightarrow> generateBatches ev opts gopts rest (logPaths batch w1))"

definition pageDataError :: "string \<Rightarrow> pageBuildData jsmap \<Rightarrow> error" where
  "pageDataError facadeId facadeIdToPageDataMap =
     Error (''Unable to find a PageBuildData for the Astro page: '' @ facadeId
            @ ''. There are the PageBuildDatas we have ''
            @ joinWith '', '' (Map_keys facadeIdToPageDataMap))"

text \<open>
  \<^verbatim>\<open>generatePage\<close> is called for outputs that \<open>chunkIsPage\<close> accepts, whose
  \<^verbatim>\<open>facadeModuleId\<close> is a non-empty string; on \<^verbatim>\<open>null\<close> the call of \<^verbatim>\<open>replace\<close> in
  \<open>getByFacadeId\<close> throws a TypeError. \<^verbatim>\<open>|| []\<close> allocates a new empty array when the
  page has no assets.
\<close>

definition generatePage ::
  "env \<Rightarrow> buildOutput \<Rightarrow> buildOpts \<Rightarrow> internals \<Rightarrow> pageBuildData jsmap \<Rightarrow> string list
     \<Rightarrow> world \<Rightarrow> error option \<times> world" where
  "generatePage ev out opts ints facadeIdToPageDataMap rs w =
     (let cfg = astroConfig opts;
          url = newURL ev (''./'' @ fileName out) (getOutRoot ev cfg)
      in
      case facadeModuleId out of
        None \<Rightarrow> (Some (Error ''TypeError: Cannot read properties of null''), w)
      | Some facadeId \<Rightarrow>
          (case getByFacadeId truthyObject facadeId facadeIdToPageDataMap of
             None \<Rightarrow> (Some (pageDataError facadeId facadeIdToPageDataMap), w)
           | Some pd \<Rightarrow>
               let (ids, w1) =
                     (case getByFacadeId truthyObject facadeId (facadeIdToAssetsMap ints) of
                        Some a \<Rightarrow> (a, w)
                      | None \<Rightarrow>
                          (nextAddr w,
                           w\<lparr>heap := (heap w)(nextAddr w := []), nextAddr := Suc (nextAddr w)\<rparr>));
                   hoisted =
                     (case getByFacadeId truthyString facadeId (facadeIdToHoistedEntryMap ints) of
                        Some h \<Rightarrow> if truthyString h then Some h else None
                      | None \<Rightarrow> None)
               in
               (case importModule ev url of
                  Inl err \<Rightarrow> (Some err, w1)
                | Inr cm \<Rightarrow>
                    let generationOptions =
                          \<lparr>pageData = pd, internals = ints, linkIds = ids,
                           hoistedId = hoisted, compiledModule = cm, loadedRenderers = rs\<rparr>;
                        w2 = logAdd (InfoPage (routeType (route pd)) (component (route pd))) w1
                    in
                    generateBatches ev opts generationOptions
                      (throttle MAX_CONCURRENT_RENDERS (paths pd)) w2)))"

subsection \<open>generatePages (lines 28-35 and 87-98)\<close>

text \<open>
  \<^verbatim>\<open>loadRenderers\<close>: all the imports are started, one for each configured renderer, and
  \<^verbatim>\<open>Promise.all\<close> awaits them. It resolves to the loaded renderers in the order of the
  configuration, and rejects with the rejection that comes first in time, which the
  schedule chooses among the imports that fail.
\<close>

fun rejections :: "(error + 'a) list \<Rightarrow> error list" where
  "rejections [] = []"
| "rejections (Inl err # rs) = err # rejections rs"
| "rejections (Inr v # rs) = rejections rs"

fun fulfilments :: "(error + 'a) list \<Rightarrow> 'a list" where
  "fulfilments [] = []"
| "fulfilments (Inl err # rs) = fulfilments rs"
| "fulfilments (Inr v # rs) = v # fulfilments rs"

definition loadRenderers :: "env \<Rightarrow> astroConfig \<Rightarrow> world \<Rightarrow> error + string list" where
  "loadRenderers ev cfg w =
     (let settled = map (\<lambda>r. loadRenderer ev r cfg) (renderers cfg) in
      case rejections settled of
        [] \<Rightarrow> Inr (fulfilments settled)
      | err # errs \<Rightarrow> Inl ((err # errs) ! (schedule ev (tick w) mod length (err # errs))))"

text \<open>The loop of lines 93-97: an error thrown by \<open>generatePage\<close> leaves the loop.\<close>

fun generatePages_loop ::
  "env \<Rightarrow> buildOutput list \<Rightarrow> buildOpts \<Rightarrow> internals \<Rightarrow> pageBuildData jsmap \<Rightarrow> string list
     \<Rightarrow> world \<Rightarrow> error option \<times> world" where
  "generatePages_loop ev [] opts ints facadeIdToPageDataMap rs w = (None, w)"
| "generatePages_loop ev (out # rest) opts ints facadeIdToPageDataMap rs w =
     (if chunkIsPage (astroConfig opts) out ints
      then (case generatePage ev out opts ints facadeIdToPageDataMap rs w of
              (Some err, w1) \<Rightarrow> (Some err, w1)
            | (None, w1) \<Rightarrow> generatePages_loop ev rest opts ints facadeIdToPageDataMap rs w1)
      else generatePages_loop ev rest opts ints facadeIdToPageDataMap rs w)"

definition generatePages ::
  "env \<Rightarrow> buildOutput list \<Rightarrow> buildOpts \<Rightarrow> internals \<Rightarrow> pageBuildData jsmap \<Rightarrow> world
     \<Rightarrow> error option \<times> world" where
  "generatePages ev result opts ints facadeIdToPageDataMap w =
     (let w1 = logAdd InfoBanner w in
      case loadRenderers ev (astroConfig opts) w1 of
        Inl err \<Rightarrow> (Some err, w1)
      | Inr rs \<Rightarrow> generatePages_loop ev result opts ints facadeIdToPageDataMap rs w1)"

subsection \<open>A task awaited alone, and the progress lines of the log\<close>







subsection \<open>Sample inputs\<close>

text \<open>
  Concrete collaborators and inputs on which the functions are evaluated below. The
  stylesheet builder of \<open>env0\<close> throws on a site that is not a URL, as \<^verbatim>\<open>new URL\<close>
  does; its renderer resolves the script of the path and returns the link targets
  followed by the resolved script path; its endpoint handler returns a response object;
  its event loop runs the second of several pending tasks first.
\<close>

definition linkElement :: "string \<Rightarrow> element" where
  "linkElement href = \<lparr>props = [(''rel'', ''stylesheet''), (''href'', href)], children = []\<rparr>"

definition scriptElement :: "string \<Rightarrow> element" where
  "scriptElement src = \<lparr>props = [(''type'', ''module''), (''src'', src)], children = []\<rparr>"

definition env0 :: env where
  "env0 =
     \<lparr>cwd = ''/'',
      loadRenderer = (\<lambda>r c. Inr r),
      getOutRoot = (\<lambda>c. ''file:///r/dist/''),
      newURL = (\<lambda>rel base. base @ drop 2 rel),
      importModule = (\<lambda>url. Inr url),
      createLinkStylesheetElementSet =
        (\<lambda>ids s. if s = Some ''not a url'' then Inl (Error ''TypeError: Invalid URL'')
                 else Inr (map linkElement ids)),
      createModuleScriptElementWithSrcSet = (\<lambda>ids s. Inr (map scriptElement ids)),
      render =
        (\<lambda>options.
           case ro_resolve options (''/src/scripts'' @ ro_pathname options @ ''.js'') of
             Inl err \<Rightarrow> Inl err
           | Inr src \<Rightarrow>
               Inr (HtmlResult
                     (concat (map (\<lambda>e. concat (map snd (props e))) (ro_links options)) @ src))),
      callEndpoint = (\<lambda>m options. Inr EndpointResponse),
      getOutFolder = (\<lambda>c p rt. Inr (''dist'' @ p)),
      getOutFile = (\<lambda>c folder p rt. Inr (folder @ ''/index.html'')),
      mkdirError = (\<lambda>folder. None),
      writeFileError = (\<lambda>file body. None),
      schedule = (\<lambda>t. 1),
      rejectionDelay = (\<lambda>t. 0)\<rparr>"

definition world0 :: world where
  "world0 =
     \<lparr>heap = (\<lambda>a. [])(0 := [''a.css'', ''b.css'']),
      nextAddr = 1, pageNames = [], dirs = [], files = (\<lambda>f. None), logged = [],
      tick = 0\<rparr>"

definition cfg0 :: astroConfig where
  "cfg0 = \<lparr>projectRoot = ''/r/'', site = None, experimentalSsr = False,
           scripts = [], renderers = []\<rparr>"

definition opts0 :: buildOpts where
  "opts0 = \<lparr>astroConfig = cfg0, origin = ''http://localhost:3000''\<rparr>"

definition optsBadSite :: buildOpts where
  "optsBadSite = \<lparr>astroConfig = cfg0\<lparr>site := Some ''not a url''\<rparr>,
                  origin = ''http://localhost:3000''\<rparr>"

definition ints0 :: internals where
  "ints0 = \<lparr>entrySpecifierToBundleMap =
              [(''/src/pages/index.astro'', ''index.js''),
               (''/src/pages/api.json.ts'', ''api.js'')],
            facadeIdToAssetsMap = [(''/r/src/pages/index.astro'', 0)],
            facadeIdToHoistedEntryMap = []\<rparr>"

definition intsScripts :: internals where
  "intsScripts = ints0\<lparr>entrySpecifierToBundleMap :=
                   (''/src/scripts/about.js'', ''assets/about.js'')
                     # entrySpecifierToBundleMap ints0\<rparr>"

definition pd0 :: pageBuildData where
  "pd0 = \<lparr>route = \<lparr>routeType = PageRoute, component = ''src/pages/index.astro''\<rparr>,
          paths = [''/'', ''/about'']\<rparr>"

definition pdEndpoint :: pageBuildData where
  "pdEndpoint = \<lparr>route = \<lparr>routeType = EndpointRoute, component = ''src/pages/api.json.ts''\<rparr>,
                 paths = [''/api.json'']\<rparr>"

definition chunk0 :: buildOutput where
  "chunk0 = \<lparr>outputType = Chunk, fileName = ''index.js'',
             facadeModuleId = Some ''/r/src/pages/index.astro''\<rparr>"

definition chunkApi :: buildOutput where
  "chunkApi = \<lparr>outputType = Chunk, fileName = ''api.js'',
               facadeModuleId = Some ''/r/src/pages/api.json.ts''\<rparr>"

definition pageMap0 :: "pageBuildData jsmap" where
  "pageMap0 = [(''/r/src/pages/index.astro'', pd0), (''/r/src/pages/api.json.ts'', pdEndpoint)]"

definition gopts0 :: generatePathOptions where
  "gopts0 =
     \<lparr>pageData = pd0, internals = ints0, linkIds = 0, hoistedId = None,
      compiledModule = ''file:///r/dist/index.js'', loadedRenderers = []\<rparr>"

definition goptsEndpoint :: generatePathOptions where
  "goptsEndpoint = gopts0\<lparr>pageData := pdEndpoint\<rparr>"

definition goptsScripts :: generatePathOptions where
  "goptsScripts = gopts0\<lparr>internals := intsScripts\<rparr>"

section \<open>Properties\<close>

lemmas sample_defs = env0_def world0_def cfg0_def opts0_def optsBadSite_def ints0_def
  intsScripts_def pd0_def pdEndpoint_def chunk0_def chunkApi_def pageMap0_def gopts0_def
  goptsEndpoint_def goptsScripts_def linkElement_def scriptElement_def

lemmas generatePath_defs = generatePath_def generatePath_try_def generatePath_links_def
  reverseLinkIds_def beforeLinks_def logAdd_def addPageName_def hoistedScripts_def
  renderOptionsFor_def writeOutput_def resolve_def Map_get_def Let_def
  ensureTrailingSlash_def removeLeadingSlash_def truthyString_def



lemmas chunkIsPage_defs = chunkIsPage_def truthyString_def Map_has_def prependForwardSlash_def
  rootRelativeFacadeId_def

subsection \<open>throttle\<close>

lemma throttle_loop_concat: "concat (throttle_loop maxv inPaths tmp i) = tmp @ inPaths"
  by (induction inPaths arbitrary: tmp i) (simp_all add: Let_def)

text \<open>
  C1. Batches of at most \<open>maxSize\<close> paths, and three batches of one path for
  \<open>maxSize = 1\<close> and the paths /a, /b, /c: the code compares the counter with \<open>max\<close>
  before it increments it, so a batch is yielded when it holds \<open>max + 1\<close> paths. For
  \<open>max = 1\<close> the three paths come out as one batch of two and one batch of one.
\<close>

theorem throttle_max_one_batches:
  "throttle 1 [''/a'', ''/b'', ''/c''] = [[''/a'', ''/b''], [''/c'']]"
  by (simp add: throttle_def)

text \<open>
  C9. Concatenating the batches that \<open>throttle\<close> yields, in yield order, gives the input
  sequence back: the same paths in the same order, none twice and none left out. This
  holds for every \<open>max\<close>, so in particular for every \<open>max\<close> of at least one.
\<close>

theorem throttle_concat: "concat (throttle maxv inPaths) = inPaths"
  by (simp add: throttle_def throttle_loop_concat)

text \<open>
  What the code bounds instead: for a \<open>max\<close> that is not negative, every batch holds
  at most \<open>max + 1\<close> paths.
\<close>

lemma throttle_loop_lengths:
  assumes "b \<in> set (throttle_loop maxv inPaths tmp i)"
    and "i = int (length tmp)" and "i \<le> maxv"
  shows "int (length b) \<le> maxv + 1"
  using assms
proof (induction inPaths arbitrary: tmp i)
  case Nil
  then show ?case by (simp split: if_splits)
next
  case (Cons p ps)
  show ?case
  proof (cases "i = maxv")
    case True
    with Cons.prems have "b = tmp @ [p] \<or> b \<in> set (throttle_loop maxv ps [] 0)"
      by (simp add: Let_def)
    then show ?thesis
    proof
      assume "b = tmp @ [p]"
      with Cons.prems True show ?thesis by simp
    next
      assume "b \<in> set (throttle_loop maxv ps [] 0)"
      moreover from Cons.prems have "0 \<le> maxv" by simp
      ultimately show ?thesis using Cons.IH [of "[]" 0] by simp
    qed
  next
    case False
    with Cons.prems have m: "b \<in> set (throttle_loop maxv ps (tmp @ [p]) (i + 1))"
      by (simp add: Let_def)
    from Cons.prems False have e: "i + 1 = int (length (tmp @ [p]))" and l: "i + 1 \<le> maxv"
      by simp_all
    from m e l show ?thesis by (rule Cons.IH)
  qed
qed

lemma throttle_lengths:
  assumes "b \<in> set (throttle maxv inPaths)" and "0 \<le> maxv"
  shows "int (length b) \<le> maxv + 1"
  using assms throttle_loop_lengths [of b maxv inPaths "[]" 0]
  by (simp add: throttle_def)

subsection \<open>chunkIsPage\<close>

lemma toBackslashes_idem: "toBackslashes (toBackslashes s) = toBackslashes s"
  by (simp add: toBackslashes_def)

lemma toBackslashes_Nil_iff: "toBackslashes a = toBackslashes b \<Longrightarrow> (a = []) = (b = [])"
  by (cases a; cases b) (simp_all add: toBackslashes_def)

text \<open>
  C3, as stated: two artifacts that differ only in the separators of the facade
  identifier are classified alike. This fails: the identifier is cut and compared as it
  is spelt, so the chunk of \<^verbatim>\<open>/r/src/pages/index.astro\<close> is a page and the same chunk
  with backslashes is not.
\<close>

theorem chunkIsPage_separator_counterexample:
  "chunkIsPage cfg0 chunk0 ints0 \<and>
   \<not> chunkIsPage cfg0
       (chunk0\<lparr>facadeModuleId := Some (toBackslashes ''/r/src/pages/index.astro'')\<rparr>) ints0"
  by (simp add: chunkIsPage_defs cfg0_def chunk0_def ints0_def toBackslashes_def)

text \<open>
  C3, amended: two artifacts of the same type whose facade identifiers differ only in
  the separators (they are equal once every forward slash is a backslash) are classified
  alike when the identifiers agree after the project root, that is when the separators
  that differ all lie in the prefix that \<open>rootRelativeFacadeId\<close> cuts off.
\<close>

theorem chunkIsPage_separator_in_root:
  assumes "outputType o1 = outputType o2"
    and "facadeModuleId o1 = Some f1" and "facadeModuleId o2 = Some f2"
    and "toBackslashes f1 = toBackslashes f2"
    and "drop (length (projectRoot cfg)) f1 = drop (length (projectRoot cfg)) f2"
  shows "chunkIsPage cfg o1 ints = chunkIsPage cfg o2 ints"
  using assms toBackslashes_Nil_iff [of f1 f2]
  by (simp add: chunkIsPage_def truthyString_def rootRelativeFacadeId_def)

text \<open>
  The amended statement at the chunk of \<^verbatim>\<open>/r/src/pages/index.astro\<close> and the same
  chunk with the root written with backslashes: both are pages.
\<close>

theorem chunkIsPage_separator_in_root_witness:
  "chunkIsPage cfg0 chunk0 ints0 \<and>
   chunkIsPage cfg0
     (chunk0\<lparr>facadeModuleId := Some (toBackslashes ''/r/'' @ ''src/pages/index.astro'')\<rparr>) ints0"
proof -
  have "chunkIsPage cfg0 chunk0 ints0 =
        chunkIsPage cfg0
          (chunk0\<lparr>facadeModuleId := Some (toBackslashes ''/r/'' @ ''src/pages/index.astro'')\<rparr>)
          ints0"
    by (rule chunkIsPage_separator_in_root [where ?f1.0 = "''/r/src/pages/index.astro''"
          and ?f2.0 = "toBackslashes ''/r/'' @ ''src/pages/index.astro''"])
       (simp_all add: chunk0_def cfg0_def toBackslashes_def)
  moreover have "chunkIsPage cfg0 chunk0 ints0"
    by (simp add: chunkIsPage_defs cfg0_def chunk0_def ints0_def)
  ultimately show ?thesis by simp
qed

subsection \<open>getByFacadeId\<close>

text \<open>
  C4, as stated: the forward-slash form and the backslash form of an identifier find the
  same record when either is a key. This fails when the key is the forward-slash form:
  only forward slashes are replaced, so the backslash form finds nothing.
\<close>

theorem getByFacadeId_forward_key_counterexample:
  "getByFacadeId truthyObject ''/a/b'' [(''/a/b'', pd0)] = Some pd0 \<and>
   getByFacadeId truthyObject (toBackslashes ''/a/b'') [(''/a/b'', pd0)] = None"
  by (simp add: getByFacadeId_def Map_get_def truthyObject_def toBackslashes_def)

text \<open>
  C4, amended: when the identifier as given is not a key of the map, looking it up and
  looking up its backslash form both give the entry stored under the backslash form.
\<close>

theorem getByFacadeId_backslash_key:
  assumes "Map_get m facadeId = None"
  shows "getByFacadeId truthy facadeId m = Map_get m (toBackslashes facadeId) \<and>
         getByFacadeId truthy (toBackslashes facadeId) m = Map_get m (toBackslashes facadeId)"
  using assms by (simp add: getByFacadeId_def toBackslashes_idem split: option.splits)

text \<open>The amended statement on a map whose only key is the backslash form of /a/b.\<close>

theorem getByFacadeId_backslash_key_witness:
  "Map_get [(toBackslashes ''/a/b'', pd0)] ''/a/b'' = None \<and>
   getByFacadeId truthyObject ''/a/b'' [(toBackslashes ''/a/b'', pd0)] = Some pd0 \<and>
   getByFacadeId truthyObject (toBackslashes ''/a/b'') [(toBackslashes ''/a/b'', pd0)] = Some pd0"
proof -
  have h: "Map_get [(toBackslashes ''/a/b'', pd0)] ''/a/b'' = None"
    by (simp add: Map_get_def toBackslashes_def)
  show ?thesis
    using h getByFacadeId_backslash_key [OF h, of truthyObject]
    by (simp add: Map_get_def)
qed

subsection \<open>resolve\<close>

text \<open>
  C5. For a specifier that is not in the specifier table, \<open>resolve\<close> returns the fixed
  placeholder when the specifier is \<^verbatim>\<open>astro:scripts/before-hydration.js\<close>, and fails
  with an error whose message names the specifier otherwise.
\<close>

theorem resolve_absent:
  assumes "Map_get (entrySpecifierToBundleMap ints) specifier = None"
  shows "resolve wd ints pathname specifier =
     (if specifier = ''astro:scripts/before-hydration.js''
      then Inr ''data:text/javascript;charset=utf-8,//[no before-hydration script]''
      else Inl (Error (''Cannot find the built path for '' @ specifier)))"
  using assms by (simp add: resolve_def)

text \<open>Both cases on the sample table, which holds neither specifier.\<close>

theorem resolve_absent_witness:
  "Map_get (entrySpecifierToBundleMap ints0) ''astro:scripts/before-hydration.js'' = None \<and>
   resolve ''/'' ints0 ''/about'' ''astro:scripts/before-hydration.js''
     = Inr ''data:text/javascript;charset=utf-8,//[no before-hydration script]'' \<and>
   Map_get (entrySpecifierToBundleMap ints0) ''/src/x.js'' = None \<and>
   resolve ''/'' ints0 ''/about'' ''/src/x.js''
     = Inl (Error ''Cannot find the built path for /src/x.js'')"
proof -
  have h1: "Map_get (entrySpecifierToBundleMap ints0) ''astro:scripts/before-hydration.js'' = None"
    by (simp add: Map_get_def ints0_def)
  have h2: "Map_get (entrySpecifierToBundleMap ints0) ''/src/x.js'' = None"
    by (simp add: Map_get_def ints0_def)
  show ?thesis
    using h1 h2 resolve_absent [OF h1, of "''/''" "''/about''"]
      resolve_absent [OF h2, of "''/''" "''/about''"]
    by simp
qed

text \<open>
  C6. A specifier of the table resolves to a reference that begins with \<^verbatim>\<open>./\<close> or
  \<^verbatim>\<open>../\<close>: the code tests only the first character of the relative path, so a bundle
  file whose name begins with a dot, beside the page, comes back bare.
\<close>

theorem resolve_dotfile_bare:
  "resolve ''/''
     \<lparr>entrySpecifierToBundleMap = [(''x'', ''.hidden/a.js'')],
      facadeIdToAssetsMap = [], facadeIdToHoistedEntryMap = []\<rparr> ''/'' ''x''
   = Inr ''.hidden/a.js''"
  by (simp add: resolve_def Map_get_def posix_relative_def posix_resolve_def Let_def)

subsection \<open>generatePath\<close>

text \<open>
  No step of the \<^verbatim>\<open>try\<close> block touches the heap; the call leaves the shared array
  reversed and every other array as it was.
\<close>

lemma writeOutput_heap: "heap (snd (writeOutput ev cfg p rt body w)) = heap w"
  by (simp add: writeOutput_def Let_def split: sum.splits option.splits)

lemma generatePath_try_heap: "heap (snd (generatePath_try ev p opts gopts options w)) = heap w"
  by (simp add: generatePath_try_def Let_def writeOutput_heap
        split: sum.splits endpointResult.splits renderResult.splits)

lemma heap_logAdd: "heap (logAdd l w) = heap w"
  by (simp add: logAdd_def)

lemma heap_beforeLinks: "heap (beforeLinks p gopts w) = heap w"
  by (simp add: beforeLinks_def heap_logAdd addPageName_def)

lemma heap_reverseLinkIds:
  "heap (reverseLinkIds gopts w) = (heap w)(linkIds gopts := rev (heap w (linkIds gopts)))"
  by (simp add: reverseLinkIds_def)

lemma heap_catch:
  "heap (snd (case r of (Some err, w4) \<Rightarrow> (None, logAdd (ErrorRendering err) w4)
                      | (None, w4) \<Rightarrow> (None, w4))) = heap (snd r)"
  by (cases r; cases "fst r") (auto simp: heap_logAdd)

lemma generatePath_heap:
  "heap (snd (generatePath ev p opts gopts w))
     = (heap w)(linkIds gopts := rev (heap w (linkIds gopts)))"
  unfolding generatePath_def Let_def
  by (simp add: heap_catch generatePath_try_heap heap_reverseLinkIds heap_beforeLinks
        split: sum.splits del: fun_upd_apply)

lemma fst_catch:
  "fst (case r of (Some err, w4) \<Rightarrow> (None, logAdd (ErrorRendering err) w4)
                | (None, w4) \<Rightarrow> (None, w4)) = None"
  by (cases r; cases "fst r") auto

lemma generatePath_links_eq:
  "generatePath_links ev opts gopts v =
     createLinkStylesheetElementSet ev (rev (heap v (linkIds gopts))) (site (astroConfig opts))"
  by (simp add: generatePath_links_def reverseLinkIds_def)

text \<open>
  The promise of a call rejects exactly when one of the two element set builders
  throws, the stylesheet builder on the reversed array; otherwise the call is the
  \<^verbatim>\<open>try\<close> block run with the links built from the reversed array.
\<close>

lemma generatePath_outcome:
  "fst (generatePath ev p opts gopts v) =
     (case createLinkStylesheetElementSet ev (rev (heap v (linkIds gopts))) (site (astroConfig opts)) of
        Inl err \<Rightarrow> Some err
      | Inr links \<Rightarrow>
          (case createModuleScriptElementWithSrcSet ev (hoistedScripts gopts)
                  (site (astroConfig opts)) of
             Inl err \<Rightarrow> Some err
           | Inr scripts0 \<Rightarrow> None))"
  unfolding generatePath_def Let_def generatePath_links_eq
  by (simp add: heap_beforeLinks fst_catch split: sum.splits)

lemma generatePath_with_links:
  assumes "createLinkStylesheetElementSet ev (rev (heap v (linkIds gopts))) (site (astroConfig opts))
             = Inr links"
    and "createModuleScriptElementWithSrcSet ev (hoistedScripts gopts) (site (astroConfig opts))
           = Inr scripts0"
  shows "generatePath ev p opts gopts v =
     (case generatePath_try ev p opts gopts
             (renderOptionsFor ev p opts gopts links
                (addInjectedScripts (scripts (astroConfig opts)) scripts0))
             (reverseLinkIds gopts (beforeLinks p gopts v)) of
        (Some err, w4) \<Rightarrow> (None, logAdd (ErrorRendering err) w4)
      | (None, w4) \<Rightarrow> (None, w4))"
  using assms unfolding generatePath_def Let_def generatePath_links_eq
  by (simp add: heap_beforeLinks)

subsection \<open>Tasks and batches\<close>







text \<open>
  Every continuation uses up a step of its task, so the event loop settles all the
  tasks of a batch; none of them turns into a rejection, so that tasks without a
  rejection all end resolved.
\<close>

lemma task_step_remaining:
  "pending t \<Longrightarrow> remaining (fst (task_step ev opts gopts t w)) < remaining t"
  by (cases t)
     (simp_all add: pending_def caught_def startWrite_def
        split: sum.splits option.splits endpointResult.splits renderResult.splits)

lemma stepNth_remaining:
  assumes "k < length (filter pending ts)"
  shows "sum_list (map remaining (fst (stepNth ev opts gopts k ts w)))
           < sum_list (map remaining ts)"
  using assms
proof (induction ts arbitrary: k)
  case Nil
  then show ?case by simp
next
  case (Cons t ts)
  show ?case
  proof (cases "pending t")
    case False
    with Cons.prems Cons.IH [of k] show ?thesis
      by (simp add: case_prod_beta)
  next
    case True
    show ?thesis
    proof (cases k)
      case 0
      with True task_step_remaining [OF True, of ev opts gopts w] show ?thesis
        by (simp add: case_prod_beta)
    next
      case (Suc j)
      with True Cons.prems Cons.IH [of j] show ?thesis
        by (simp add: case_prod_beta)
    qed
  qed
qed

lemma no_pending_iff: "(length (filter pending ts) = 0) = (sum_list (map remaining ts) = 0)"
  by (induction ts) (auto simp: pending_def)

lemma runSome_settles:
  assumes "sum_list (map remaining ts) \<le> n"
  shows "filter pending (fst (runSome ev opts gopts n ts w)) = []"
  using assms
proof (induction n arbitrary: ts w)
  case 0
  then show ?case using no_pending_iff [of ts] by simp
next
  case (Suc n)
  show ?case
  proof (cases "length (filter pending ts) = 0")
    case True
    then show ?thesis by (simp add: Let_def)
  next
    case False
    let ?k = "schedule ev (tick w) mod length (filter pending ts)"
    obtain ts' w' where st: "stepNth ev opts gopts ?k ts w = (ts', w')"
      by (cases "stepNth ev opts gopts ?k ts w")
    from False have "?k < length (filter pending ts)" by simp
    from stepNth_remaining [OF this, of ev opts gopts w] st
    have "sum_list (map remaining ts') < sum_list (map remaining ts)" by simp
    with Suc.prems have "sum_list (map remaining ts') \<le> n" by simp
    from Suc.IH [OF this, of "w'\<lparr>tick := Suc (tick w')\<rparr>"] st False show ?thesis
      by (simp add: Let_def)
  qed
qed

lemma runTasks_settles: "filter pending (fst (runTasks ev opts gopts ts w)) = []"
  by (simp add: runTasks_def runSome_settles)

lemma firstRejected_None_iff: "(firstRejected ts = None) = (\<forall>t \<in> set ts. \<not> isRejected t)"
proof (induction ts)
  case Nil
  show ?case by simp
next
  case (Cons t ts)
  then show ?case by (cases t) simp_all
qed

lemma task_step_not_rejected:
  "\<not> isRejected t \<Longrightarrow> \<not> isRejected (fst (task_step ev opts gopts t w))"
  by (cases t)
     (simp_all add: caught_def startWrite_def
        split: sum.splits option.splits endpointResult.splits renderResult.splits)

lemma stepNth_not_rejected:
  assumes "\<forall>t \<in> set ts. \<not> isRejected t"
  shows "\<forall>t \<in> set (fst (stepNth ev opts gopts k ts w)). \<not> isRejected t"
  using assms
proof (induction ts arbitrary: k)
  case Nil
  show ?case by simp
next
  case (Cons t ts)
  from Cons.prems have t: "\<not> isRejected t" and ts: "\<forall>t \<in> set ts. \<not> isRejected t"
    by simp_all
  show ?case
  proof (cases "pending t")
    case False
    with t Cons.IH [OF ts, of k] show ?thesis
      by (simp add: case_prod_beta)
  next
    case True
    show ?thesis
    proof (cases k)
      case 0
      with True ts task_step_not_rejected [OF t, of ev opts gopts w] show ?thesis
        by (simp add: case_prod_beta)
    next
      case (Suc j)
      with True t Cons.IH [OF ts, of j] show ?thesis
        by (simp add: case_prod_beta)
    qed
  qed
qed

lemma runSome_not_rejected:
  assumes "\<forall>t \<in> set ts. \<not> isRejected t"
  shows "\<forall>t \<in> set (fst (runSome ev opts gopts n ts w)). \<not> isRejected t"
  using assms
proof (induction n arbitrary: ts w)
  case 0
  then show ?case by simp
next
  case (Suc n)
  let ?k = "schedule ev (tick w) mod length (filter pending ts)"
  obtain ts' w' where st: "stepNth ev opts gopts ?k ts w = (ts', w')"
    by (cases "stepNth ev opts gopts ?k ts w")
  with stepNth_not_rejected [OF Suc.prems, of ev opts gopts ?k w]
  have "\<forall>t \<in> set ts'. \<not> isRejected t" by simp
  from Suc.IH [OF this, of "w'\<lparr>tick := Suc (tick w')\<rparr>"] st Suc.prems show ?case
    by (simp add: Let_def)
qed

lemma settled_cases: "\<not> pending t \<Longrightarrow> \<not> isRejected t \<Longrightarrow> t = Resolved"
  by (cases t) (simp_all add: pending_def)

lemma runTasks_all_resolved:
  assumes "firstRejected ts = None"
  shows "\<forall>t \<in> set (fst (runTasks ev opts gopts ts w)). t = Resolved"
proof
  fix t
  assume m: "t \<in> set (fst (runTasks ev opts gopts ts w))"
  from assms have "\<forall>t \<in> set ts. \<not> isRejected t"
    by (simp add: firstRejected_None_iff)
  then have "\<forall>t \<in> set (fst (runTasks ev opts gopts ts w)). \<not> isRejected t"
    unfolding runTasks_def by (rule runSome_not_rejected)
  with m have r: "\<not> isRejected t" by simp
  from runTasks_settles [of ev opts gopts ts w] m have "\<not> pending t"
    by (simp add: filter_empty_conv)
  with r show "t = Resolved" by (simp add: settled_cases)
qed


























subsection \<open>Errors of one path\<close>




text \<open>
  C7. For a route of type \<^verbatim>\<open>endpoint\<close> whose handler returns a response object, the
  \<^verbatim>\<open>try\<close> block throws the error of line 239, \<open>generatePath\<close> catches it: the promise
  resolves, the error is logged, and no directory or file is written for the path.
\<close>

theorem generatePath_endpoint_response:
  assumes "routeType (route (pageData gopts)) = EndpointRoute"
    and "generatePath_links ev opts gopts (beforeLinks pathname gopts w) = Inr links"
    and "createModuleScriptElementWithSrcSet ev (hoistedScripts gopts) (site (astroConfig opts))
           = Inr scripts0"
    and "callEndpoint ev (compiledModule gopts)
           (renderOptionsFor ev pathname opts gopts links
              (addInjectedScripts (scripts (astroConfig opts)) scripts0)) = Inr EndpointResponse"
  shows "fst (generatePath_try ev pathname opts gopts
           (renderOptionsFor ev pathname opts gopts links
              (addInjectedScripts (scripts (astroConfig opts)) scripts0))
           (reverseLinkIds gopts (beforeLinks pathname gopts w)))
         = Some (Error ''Returning a Response from an endpoint is not supported in SSG mode.'') \<and>
     fst (generatePath ev pathname opts gopts w) = None \<and>
     files (snd (generatePath ev pathname opts gopts w)) = files w \<and>
     dirs (snd (generatePath ev pathname opts gopts w)) = dirs w \<and>
     logged (snd (generatePath ev pathname opts gopts w)) = logged w @
       [DebugGenerating pathname,
        ErrorRendering (Error ''Returning a Response from an endpoint is not supported in SSG mode.'')]"
  using assms unfolding generatePath_def Let_def
  by (simp add: generatePath_try_def reverseLinkIds_def beforeLinks_def logAdd_def)

text \<open>
  The statement on the sample endpoint, whose handler returns a response object.
\<close>

theorem generatePath_endpoint_response_witness:
  "routeType (route (pageData goptsEndpoint)) = EndpointRoute \<and>
   fst (generatePath env0 ''/api.json'' opts0 goptsEndpoint world0) = None \<and>
   files (snd (generatePath env0 ''/api.json'' opts0 goptsEndpoint world0)) = files world0 \<and>
   logged (snd (generatePath env0 ''/api.json'' opts0 goptsEndpoint world0)) =
     [DebugGenerating ''/api.json'',
      ErrorRendering (Error ''Returning a Response from an endpoint is not supported in SSG mode.'')]"
proof -
  have h0: "routeType (route (pageData goptsEndpoint)) = EndpointRoute"
    by (simp add: sample_defs)
  have h1: "generatePath_links env0 opts0 goptsEndpoint (beforeLinks ''/api.json'' goptsEndpoint world0)
     = Inr [linkElement ''b.css'', linkElement ''a.css'']"
    by (simp add: sample_defs generatePath_defs)
  have h2: "createModuleScriptElementWithSrcSet env0 (hoistedScripts goptsEndpoint)
      (site (astroConfig opts0)) = Inr []"
    by (simp add: sample_defs generatePath_defs)
  have h3: "callEndpoint env0 (compiledModule goptsEndpoint)
           (renderOptionsFor env0 ''/api.json'' opts0 goptsEndpoint
              [linkElement ''b.css'', linkElement ''a.css'']
              (addInjectedScripts (scripts (astroConfig opts0)) [])) = Inr EndpointResponse"
    by (simp add: env0_def)
  have l: "logged world0 = []"
    by (simp add: world0_def)
  show ?thesis
    using h0 generatePath_endpoint_response [OF h0 h1 h2 h3] l by simp
qed

subsection \<open>generatePages\<close>

lemma generatePage_no_pageData:
  assumes "facadeModuleId out = Some facadeId"
    and "getByFacadeId truthyObject facadeId m = None"
  shows "generatePage ev out opts ints m rs w = (Some (pageDataError facadeId m), w)"
  using assms by (simp add: generatePage_def Let_def)

lemma generatePages_loop_error:
  assumes "out \<in> set outs"
    and "chunkIsPage (astroConfig opts) out ints"
    and "\<And>rs w. fst (generatePage ev out opts ints m rs w) \<noteq> None"
  shows "fst (generatePages_loop ev outs opts ints m rs w) \<noteq> None"
  using assms(1)
proof (induction outs arbitrary: w)
  case Nil
  then show ?case by simp
next
  case (Cons x xs)
  show ?case
  proof (cases "chunkIsPage (astroConfig opts) x ints")
    case False
    with Cons assms(2) have "out \<in> set xs" by auto
    with Cons.IH False show ?thesis by simp
  next
    case True
    obtain r w1 where g: "generatePage ev x opts ints m rs w = (r, w1)"
      by (cases "generatePage ev x opts ints m rs w")
    show ?thesis
    proof (cases r)
      case (Some e)
      with g True show ?thesis by simp
    next
      case None
      with g assms(3) [of rs w] have "x \<noteq> out" by auto
      with Cons.prems have "out \<in> set xs" by auto
      with Cons.IH None g True show ?thesis by simp
    qed
  qed
qed

text \<open>
  C8. When an output that \<open>chunkIsPage\<close> accepts has a facade identifier for which
  \<open>getByFacadeId\<close> finds no \<^verbatim>\<open>PageBuildData\<close>, \<open>generatePage\<close> throws the error of
  line 115 before any path is rendered, and \<open>generatePages\<close> ends with an error: nothing
  between \<open>generatePage\<close> and the caller of \<open>generatePages\<close> catches it.
\<close>

theorem generatePages_missing_pageData:
  assumes "out \<in> set result"
    and "chunkIsPage (astroConfig opts) out ints"
    and "facadeModuleId out = Some facadeId"
    and "getByFacadeId truthyObject facadeId facadeIdToPageDataMap = None"
  shows "(\<forall>rs w'. generatePage ev out opts ints facadeIdToPageDataMap rs w'
            = (Some (pageDataError facadeId facadeIdToPageDataMap), w')) \<and>
         fst (generatePages ev result opts ints facadeIdToPageDataMap w) \<noteq> None"
proof -
  have p: "\<And>rs w'. generatePage ev out opts ints facadeIdToPageDataMap rs w'
            = (Some (pageDataError facadeId facadeIdToPageDataMap), w')"
    using assms(3,4) by (rule generatePage_no_pageData)
  then have "\<And>rs w'. fst (generatePage ev out opts ints facadeIdToPageDataMap rs w') \<noteq> None"
    by simp
  with assms(1,2)
  have "\<And>rs w'. fst (generatePages_loop ev result opts ints facadeIdToPageDataMap rs w') \<noteq> None"
    by (rule generatePages_loop_error)
  then have "fst (generatePages ev result opts ints facadeIdToPageDataMap w) \<noteq> None"
    by (simp add: generatePages_def Let_def split: sum.splits)
  with p show ?thesis by simp
qed

text \<open>
  The statement on the sample chunk and a map that holds another page only.
\<close>

theorem generatePages_missing_pageData_witness:
  "chunk0 \<in> set [chunk0] \<and>
   chunkIsPage (astroConfig opts0) chunk0 ints0 \<and>
   facadeModuleId chunk0 = Some ''/r/src/pages/index.astro'' \<and>
   getByFacadeId truthyObject ''/r/src/pages/index.astro'' [(''/r/src/pages/other.astro'', pd0)] = None \<and>
   generatePage env0 chunk0 opts0 ints0 [(''/r/src/pages/other.astro'', pd0)] [] world0 =
     (Some (Error (''Unable to find a PageBuildData for the Astro page: /r/src/pages/index.astro''
                   @ ''. There are the PageBuildDatas we have /r/src/pages/other.astro'')), world0) \<and>
   fst (generatePages env0 [chunk0] opts0 ints0 [(''/r/src/pages/other.astro'', pd0)] world0) \<noteq> None"
proof -
  have h1: "chunk0 \<in> set [chunk0]"
    by simp
  have h2: "chunkIsPage (astroConfig opts0) chunk0 ints0"
    by (simp add: chunkIsPage_defs sample_defs)
  have h3: "facadeModuleId chunk0 = Some ''/r/src/pages/index.astro''"
    by (simp add: chunk0_def)
  have h4: "getByFacadeId truthyObject ''/r/src/pages/index.astro''
              [(''/r/src/pages/other.astro'', pd0)] = None"
    by (simp add: getByFacadeId_def Map_get_def toBackslashes_def)
  have e: "pageDataError ''/r/src/pages/index.astro'' [(''/r/src/pages/other.astro'', pd0)] =
     Error (''Unable to find a PageBuildData for the Astro page: /r/src/pages/index.astro''
                   @ ''. There are the PageBuildDatas we have /r/src/pages/other.astro'')"
    by (simp add: pageDataError_def Map_keys_def)
  show ?thesis
    using h1 h2 h3 h4 e generatePages_missing_pageData [OF h1 h2 h3 h4, of env0 world0]
    by simp
qed

subsection \<open>The shared array of link identifiers\<close>

text \<open>
  C10. Every call of \<open>generatePath\<close> leaves the array \<open>linkIds\<close> of its options
  reversed; a second call with the same arguments, started where the first ended, puts
  it back. The first call hands the reversed array to the stylesheet builder and the
  second the array in its first order: the promise of each call rejects as the builder
  throws on that array, and otherwise the call runs its \<^verbatim>\<open>try\<close> block with options
  whose links are those the builder made of that array, which is what \<^verbatim>\<open>render\<close> is
  called with. So the links of a path depend on how many calls came before.
\<close>

theorem generatePath_reverses_linkIds:
  "let a = linkIds gopts;
       ids = heap w a;
       st = site (astroConfig opts);
       w1 = snd (generatePath ev p opts gopts w);
       w2 = snd (generatePath ev p opts gopts w1);
       outcome = (\<lambda>array.
         case createLinkStylesheetElementSet ev array st of
           Inl err \<Rightarrow> Some err
         | Inr links \<Rightarrow>
             (case createModuleScriptElementWithSrcSet ev (hoistedScripts gopts) st of
                Inl err \<Rightarrow> Some err
              | Inr scripts0 \<Rightarrow> None));
       options = (\<lambda>links scripts0.
         renderOptionsFor ev p opts gopts links
           (addInjectedScripts (scripts (astroConfig opts)) scripts0));
       run = (\<lambda>links scripts0 v.
         case generatePath_try ev p opts gopts (options links scripts0)
                (reverseLinkIds gopts (beforeLinks p gopts v)) of
           (Some err, w4) \<Rightarrow> (None, logAdd (ErrorRendering err) w4)
         | (None, w4) \<Rightarrow> (None, w4))
   in
   heap w1 a = rev ids \<and>
   heap w2 a = ids \<and>
   fst (generatePath ev p opts gopts w) = outcome (rev ids) \<and>
   fst (generatePath ev p opts gopts w1) = outcome ids \<and>
   (\<forall>links scripts0.
      createLinkStylesheetElementSet ev (rev ids) st = Inr links \<and>
      createModuleScriptElementWithSrcSet ev (hoistedScripts gopts) st = Inr scripts0
      \<longrightarrow> generatePath ev p opts gopts w = run links scripts0 w \<and>
          ro_links (options links scripts0) = links) \<and>
   (\<forall>links scripts0.
      createLinkStylesheetElementSet ev ids st = Inr links \<and>
      createModuleScriptElementWithSrcSet ev (hoistedScripts gopts) st = Inr scripts0
      \<longrightarrow> generatePath ev p opts gopts w1 = run links scripts0 w1 \<and>
          ro_links (options links scripts0) = links) \<and>
   (routeType (route (pageData gopts)) = PageRoute \<longrightarrow>
      (\<forall>o' v err. render ev o' = Inl err \<longrightarrow>
         generatePath_try ev p opts gopts o' v = (Some err, v)))"
proof -
  let ?a = "linkIds gopts"
  let ?w1 = "snd (generatePath ev p opts gopts w)"
  have h1: "heap ?w1 ?a = rev (heap w ?a)"
    by (simp add: generatePath_heap)
  have h2: "heap (snd (generatePath ev p opts gopts ?w1)) ?a = heap w ?a"
    by (simp add: generatePath_heap)
  have r: "rev (heap ?w1 ?a) = heap w ?a"
    by (simp add: h1)
  have o1: "fst (generatePath ev p opts gopts w) =
     (case createLinkStylesheetElementSet ev (rev (heap w ?a)) (site (astroConfig opts)) of
        Inl err \<Rightarrow> Some err
      | Inr links \<Rightarrow>
          (case createModuleScriptElementWithSrcSet ev (hoistedScripts gopts)
                  (site (astroConfig opts)) of
             Inl err \<Rightarrow> Some err
           | Inr scripts0 \<Rightarrow> None))"
    by (rule generatePath_outcome)
  have o2: "fst (generatePath ev p opts gopts ?w1) =
     (case createLinkStylesheetElementSet ev (heap w ?a) (site (astroConfig opts)) of
        Inl err \<Rightarrow> Some err
      | Inr links \<Rightarrow>
          (case createModuleScriptElementWithSrcSet ev (hoistedScripts gopts)
                  (site (astroConfig opts)) of
             Inl err \<Rightarrow> Some err
           | Inr scripts0 \<Rightarrow> None))"
    using generatePath_outcome [of ev p opts gopts ?w1] by (simp only: r)
  have c1: "\<And>links scripts0.
      createLinkStylesheetElementSet ev (rev (heap w ?a)) (site (astroConfig opts)) = Inr links \<Longrightarrow>
      createModuleScriptElementWithSrcSet ev (hoistedScripts gopts) (site (astroConfig opts))
        = Inr scripts0 \<Longrightarrow>
      generatePath ev p opts gopts w =
        (case generatePath_try ev p opts gopts
             (renderOptionsFor ev p opts gopts links
                (addInjectedScripts (scripts (astroConfig opts)) scripts0))
             (reverseLinkIds gopts (beforeLinks p gopts w)) of
           (Some err, w4) \<Rightarrow> (None, logAdd (ErrorRendering err) w4)
         | (None, w4) \<Rightarrow> (None, w4))"
    by (rule generatePath_with_links)
  have c2: "\<And>links scripts0.
      createLinkStylesheetElementSet ev (heap w ?a) (site (astroConfig opts)) = Inr links \<Longrightarrow>
      createModuleScriptElementWithSrcSet ev (hoistedScripts gopts) (site (astroConfig opts))
        = Inr scripts0 \<Longrightarrow>
      generatePath ev p opts gopts ?w1 =
        (case generatePath_try ev p opts gopts
             (renderOptionsFor ev p opts gopts links
                (addInjectedScripts (scripts (astroConfig opts)) scripts0))
             (reverseLinkIds gopts (beforeLinks p gopts ?w1)) of
           (Some err, w4) \<Rightarrow> (None, logAdd (ErrorRendering err) w4)
         | (None, w4) \<Rightarrow> (None, w4))"
    by (rule generatePath_with_links) (simp_all only: r)
  have l: "\<And>links scs. ro_links (renderOptionsFor ev p opts gopts links scs) = links"
    by (simp add: renderOptionsFor_def)
  have t: "routeType (route (pageData gopts)) = PageRoute \<longrightarrow>
      (\<forall>o' v err. render ev o' = Inl err \<longrightarrow>
         generatePath_try ev p opts gopts o' v = (Some err, v))"
    by (simp add: generatePath_try_def Let_def)
  show ?thesis
    unfolding Let_def using h1 h2 o1 o2 c1 c2 l t by blast
qed

text \<open>
  On the sample page with the links a.css and b.css, two calls in a row for the same
  path write pages whose links are in opposite orders.
\<close>

theorem generatePath_reverses_linkIds_witness:
  "heap (snd (generatePath env0 ''/about'' opts0 goptsScripts world0)) (linkIds goptsScripts)
     = [''b.css'', ''a.css''] \<and>
   heap (snd (generatePath env0 ''/about'' opts0 goptsScripts
                (snd (generatePath env0 ''/about'' opts0 goptsScripts world0))))
     (linkIds goptsScripts) = [''a.css'', ''b.css''] \<and>
   files (snd (generatePath env0 ''/about'' opts0 goptsScripts world0)) ''dist/about/index.html''
     = Some ''stylesheetb.cssstylesheeta.css../assets/about.js'' \<and>
   files (snd (generatePath env0 ''/about'' opts0 goptsScripts
                 (snd (generatePath env0 ''/about'' opts0 goptsScripts world0))))
     ''dist/about/index.html''
     = Some ''stylesheeta.cssstylesheetb.css../assets/about.js''"
proof -
  have a: "linkIds goptsScripts = 0" "heap world0 0 = [''a.css'', ''b.css'']"
    by (simp_all add: sample_defs)
  have f1: "generatePath env0 ''/about'' opts0 goptsScripts world0 =
      (None, world0\<lparr>heap := (heap world0)(0 := [''b.css'', ''a.css'']),
                    pageNames := [''about/''],
                    dirs := [''dist/about''],
                    files := (files world0)(''dist/about/index.html'' \<mapsto>
                       ''stylesheetb.cssstylesheeta.css../assets/about.js''),
                    logged := [DebugGenerating ''/about'']\<rparr>)"
    by (simp add: sample_defs generatePath_defs posix_relative_def posix_resolve_def)
  have f2: "files (snd (generatePath env0 ''/about'' opts0 goptsScripts
      (world0\<lparr>heap := (heap world0)(0 := [''b.css'', ''a.css'']),
                    pageNames := [''about/''],
                    dirs := [''dist/about''],
                    files := (files world0)(''dist/about/index.html'' \<mapsto>
                       ''stylesheetb.cssstylesheeta.css../assets/about.js''),
                    logged := [DebugGenerating ''/about'']\<rparr>))) ''dist/about/index.html''
     = Some ''stylesheeta.cssstylesheetb.css../assets/about.js''"
    by (simp add: sample_defs generatePath_defs posix_relative_def posix_resolve_def)
  show ?thesis
    using generatePath_reverses_linkIds [of goptsScripts world0 opts0 env0 "''/about''"]
    unfolding Let_def by (simp add: a f1 f2)
qed

end
